theory Spec2Isabelle
  imports Main "HOL-Library.Word" "HOL-Library.Char_ord" "HOL-Library.List_Lexorder"
    "HOL-Library.Product_Lexorder"
begin

section \<open>The data model\<close>

text \<open>
  The two scripts \<^verbatim>\<open>code.py\<close> and \<^verbatim>\<open>covid.py\<close> read a CSV file into a pandas frame,
  derive columns, build the sidebar, filter the frame by the sidebar selection and
  aggregate the result. A frame is modelled as the list of its rows, in frame order. A
  cell of a text column is a \<open>string option\<close>: \<open>None\<close> is pandas' NaN of a blank cell.
  \<open>Year\<close> and \<open>Month\<close> are integers.

  \<open>Deaths\<close> is a column of 64-bit integers, which is what \<^verbatim>\<open>read_csv\<close> makes of a
  column of whole numbers: its sums wrap around. A blank cell is \<open>None\<close> until
  \<^verbatim>\<open>fillna(0)\<close>. (With a blank cell pandas holds the column as float64; the model
  keeps the integers, which agree with the floats as long as no sum reaches \<open>2 ^ 53\<close>.)
\<close>

type_synonym int64 = "64 word"

record csv_row =
  csv_Country :: "string option"
  csv_Who_region :: "string option"
  csv_Wb_income :: "string option"
  csv_Year :: int
  csv_Month :: int
  csv_Agegroup :: "string option"
  csv_Deaths :: "int64 option"

text \<open>
  A timestamp of the \<^verbatim>\<open>Date\<close> column is always the first day of a month, so it is
  modelled by the number of its month, \<open>12 * year + (month - 1)\<close>; comparing two
  timestamps is comparing these numbers, and \<^verbatim>\<open>pd.DateOffset(months=n)\<close> moves the
  number by \<open>n\<close>. \<open>None\<close> is NaT.
\<close>

type_synonym timestamp = int

record row =
  Country :: "string option"
  Who_region :: "string option"
  Wb_income :: "string option"
  Year :: int
  Month :: int
  Agegroup :: "string option"
  Deaths :: int64
  Date :: "timestamp option"
  Agegroup_pretty :: "string option"
  Who_region_pretty :: "string option"

section \<open>Loading: \<^verbatim>\<open>load_data\<close>\<close>

subsection \<open>The date column\<close>

text \<open>
  \<^verbatim>\<open>pd.to_datetime(str(Year) + "-" + str(Month) + "-01", errors="coerce")\<close> works on
  the whole column. pandas (from version 2 on) infers one format from the first text of
  the column and parses every text with that format; a text that does not match is
  coerced to NaT. The column of texts is given by the column of its (year, month) pairs.

  \<^item> A first row with a year that no pandas version rejects (1678 to 2261, inside the
    range of a nanosecond timestamp) and a month 1 to 12 gives the text
    \<^verbatim>\<open>YYYY-M-01\<close> and the format \<^verbatim>\<open>%Y-%m-%d\<close>.
  \<^item> A first row with such a year and a month -12 to -1 gives the text
    \<^verbatim>\<open>YYYY--M-01\<close>, which is read as a date with a doubled separator: the format is
    \<^verbatim>\<open>%Y--%m-%d\<close>.
  \<^item> \<^verbatim>\<open>%Y\<close> takes four digits and \<^verbatim>\<open>%m\<close> a month 1 to 12, so that a text
    matches when its year is 1000 to 9999 and its month, behind the separator of the
    format, is 1 to 12.

  Two cases are left open and taken from the parameter \<open>open_dates\<close>, a function from
  the (year, month) pair of a row to its date: a matching text whose year is outside
  1678 to 2261 (NaT in pandas 2, a date in pandas 3), and every text of a column from
  whose first text neither format is inferred (pandas then parses each text on its own).
\<close>

datatype date_format = Year_Month_Day | Year_Minus_Month_Day

definition plain_year :: "int \<Rightarrow> bool" where
  "plain_year y = (1678 \<le> y \<and> y \<le> 2261)"

definition guess_datetime_format :: "int \<times> int \<Rightarrow> date_format option" where
  "guess_datetime_format p =
     (case p of (y, m) \<Rightarrow>
        if plain_year y \<and> 1 \<le> m \<and> m \<le> 12 then Some Year_Month_Day
        else if plain_year y \<and> - 12 \<le> m \<and> m \<le> - 1 then Some Year_Minus_Month_Day
        else None)"

definition month_of_text :: "date_format \<Rightarrow> int \<Rightarrow> int" where
  "month_of_text fmt m = (case fmt of Year_Month_Day \<Rightarrow> m | Year_Minus_Month_Day \<Rightarrow> - m)"

definition strptime ::
  "(int \<times> int \<Rightarrow> timestamp option) \<Rightarrow> date_format \<Rightarrow> int \<times> int \<Rightarrow> timestamp option" where
  "strptime open_dates fmt p =
     (case p of (y, m) \<Rightarrow>
        if 1 \<le> month_of_text fmt m \<and> month_of_text fmt m \<le> 12 \<and> 1000 \<le> y \<and> y \<le> 9999
        then (if plain_year y then Some (12 * y + (month_of_text fmt m - 1)) else open_dates p)
        else None)"

definition to_datetime ::
  "(int \<times> int \<Rightarrow> timestamp option) \<Rightarrow> (int \<times> int) list \<Rightarrow> timestamp option list" where
  "to_datetime open_dates col =
     (case col of [] \<Rightarrow> []
      | first # _ \<Rightarrow>
          (case guess_datetime_format first of
             Some fmt \<Rightarrow> map (strptime open_dates fmt) col
           | None \<Rightarrow> map open_dates col))"

subsection \<open>The labels\<close>

text \<open>The en dash of the age labels is the three bytes E2 80 93 of its UTF-8 form.\<close>

definition en_dash :: string where
  "en_dash = [CHR 0xE2, CHR 0x80, CHR 0x93]"

definition age_map :: "string \<rightharpoonup> string" where
  "age_map =
     [''0_4'' \<mapsto> ''0'' @ en_dash @ ''4'',
      ''5_14'' \<mapsto> ''5'' @ en_dash @ ''14'',
      ''15_64'' \<mapsto> ''15'' @ en_dash @ ''64'',
      ''65+'' \<mapsto> ''65+'']"

definition region_map :: "string \<rightharpoonup> string" where
  "region_map =
     [''AFR'' \<mapsto> ''African Region'',
      ''AMR'' \<mapsto> ''Region of the Americas'',
      ''EMR'' \<mapsto> ''Eastern Mediterranean Region'',
      ''EUR'' \<mapsto> ''European Region'',
      ''SEAR'' \<mapsto> ''South-East Asia Region'',
      ''WPR'' \<mapsto> ''Western Pacific Region'']"

text \<open>
  \<^verbatim>\<open>col.map(d).fillna(col)\<close>: a code of the table gets its label, any other text is
  kept, and a blank cell stays blank (it maps to NaN and is filled with itself).
\<close>

definition map_fillna :: "(string \<rightharpoonup> string) \<Rightarrow> string option \<Rightarrow> string option" where
  "map_fillna d c =
     (case c of None \<Rightarrow> None
      | Some s \<Rightarrow> (case d s of Some l \<Rightarrow> Some l | None \<Rightarrow> Some s))"

definition fillna0 :: "int64 option \<Rightarrow> int64" where
  "fillna0 v = (case v of None \<Rightarrow> 0 | Some d \<Rightarrow> d)"

subsection \<open>The frame\<close>

definition load_row :: "csv_row \<Rightarrow> timestamp option \<Rightarrow> row" where
  "load_row c d =
     \<lparr>Country = csv_Country c,
      Who_region = csv_Who_region c,
      Wb_income = csv_Wb_income c,
      Year = csv_Year c,
      Month = csv_Month c,
      Agegroup = csv_Agegroup c,
      Deaths = fillna0 (csv_Deaths c),
      Date = d,
      Agegroup_pretty = map_fillna age_map (csv_Agegroup c),
      Who_region_pretty = map_fillna region_map (csv_Who_region c)\<rparr>"

text \<open>
  Every derived column has one cell for each row of the file; no row is added or
  dropped. The date column is the only one that is not derived row by row.
\<close>

definition date_column :: "(int \<times> int \<Rightarrow> timestamp option) \<Rightarrow> csv_row list \<Rightarrow> timestamp option list" where
  "date_column open_dates csv = to_datetime open_dates (map (\<lambda>c. (csv_Year c, csv_Month c)) csv)"

definition load_data :: "(int \<times> int \<Rightarrow> timestamp option) \<Rightarrow> csv_row list \<Rightarrow> row list" where
  "load_data open_dates csv = map (\<lambda>(c, d). load_row c d) (zip csv (date_column open_dates csv))"

section \<open>The sidebar\<close>

record filter_spec =
  region_selected :: string
  income_selected :: string
  countries_selected :: "string list"
  agegroups_selected :: "string list"
  year_range :: "int \<times> int"

datatype error = IndexError | TypeError | ValueError | IndexingError | StreamlitAPIException

record options =
  regions :: "string list"
  income_levels :: "string list"
  countries_all :: "string list"
  agegroups_all :: "string list"
  year_min :: int
  year_max :: int

text \<open>
  \<^verbatim>\<open>sorted(col.dropna().unique().tolist())\<close>: the texts of a column, each once, in
  ascending order. Python orders texts by code point, which is the order of their UTF-8
  bytes.
\<close>

definition sorted_unique :: "string option list \<Rightarrow> string list" where
  "sorted_unique col = sort (remdups (List.map_filter id col))"

text \<open>
  The options of the widgets, in the order of the script (lines 69 to 96 of
  \<^verbatim>\<open>code.py\<close>). Three statements can end the run here:
  \<^item> the age-group labels are sorted without \<^verbatim>\<open>dropna()\<close>, and \<^verbatim>\<open>sorted\<close> raises
    a TypeError when it compares NaN with a text, that is, when the column has a blank
    label beside a text;
  \<^item> on a frame without rows the least year is NaN and \<^verbatim>\<open>int\<close> raises a ValueError;
  \<^item> the slider refuses equal bounds, so it raises when all rows are of one year.

  When every label is blank, the only option of the age-group widget is NaN; selecting
  it keeps every row, as the empty selection does, and the model writes both as the
  empty selection.
\<close>

definition sidebar :: "(row \<Rightarrow> string option) \<Rightarrow> row list \<Rightarrow> error + options" where
  "sidebar region_col df =
     (if None \<in> set (map Agegroup_pretty df) \<and> List.map_filter id (map Agegroup_pretty df) \<noteq> []
      then Inl TypeError
      else (case map Year df of [] \<Rightarrow> Inl ValueError
            | y # ys \<Rightarrow>
                if fold min ys y = fold max ys y then Inl StreamlitAPIException
                else Inr \<lparr>regions = ''All regions'' # sorted_unique (map region_col df),
                          income_levels = ''All income levels'' # sorted_unique (map Wb_income df),
                          countries_all = sorted_unique (map Country df),
                          agegroups_all = sorted_unique (map Agegroup_pretty df),
                          year_min = fold min ys y,
                          year_max = fold max ys y\<rparr>))"

text \<open>
  The selections the widgets can return: one option of each select box, options of
  each multiselect, and a range inside the bounds of the slider. The selection the
  widgets start with takes the first option of each select box, no country, every
  age-group label and the whole range.
\<close>

definition offered :: "options \<Rightarrow> filter_spec \<Rightarrow> bool" where
  "offered opts spec =
     (region_selected spec \<in> set (regions opts) \<and>
      income_selected spec \<in> set (income_levels opts) \<and>
      list_all (\<lambda>c. c \<in> set (countries_all opts)) (countries_selected spec) \<and>
      list_all (\<lambda>a. a \<in> set (agegroups_all opts)) (agegroups_selected spec) \<and>
      year_min opts \<le> fst (year_range spec) \<and> fst (year_range spec) \<le> snd (year_range spec) \<and>
      snd (year_range spec) \<le> year_max opts)"

definition default_selection :: "options \<Rightarrow> filter_spec" where
  "default_selection opts =
     \<lparr>region_selected = ''All regions'', income_selected = ''All income levels'',
      countries_selected = [], agegroups_selected = agegroups_all opts,
      year_range = (year_min opts, year_max opts)\<rparr>"

section \<open>The filter\<close>

text \<open>
  \<^verbatim>\<open>col == s\<close> is false on a blank cell, and so is \<^verbatim>\<open>col.isin(values)\<close> for the
  texts a multiselect returns.
\<close>

definition eq_cell :: "string option \<Rightarrow> string \<Rightarrow> bool" where
  "eq_cell c s = (c = Some s)"

definition isin :: "string option \<Rightarrow> string list \<Rightarrow> bool" where
  "isin c vals = (case c of None \<Rightarrow> False | Some s \<Rightarrow> s \<in> set vals)"

text \<open>
  The filter of both scripts, step by step as they write it. They differ in the column
  of the region test only: \<^verbatim>\<open>Who_region_pretty\<close> in \<^verbatim>\<open>code.py\<close>,
  \<^verbatim>\<open>Who_region\<close> in \<^verbatim>\<open>covid.py\<close>. An empty Python list is false, so an empty
  selection of countries or of age groups skips its step.
\<close>

definition apply_filters :: "(row \<Rightarrow> string option) \<Rightarrow> filter_spec \<Rightarrow> row list \<Rightarrow> row list" where
  "apply_filters region_col spec df =
     (let f0 = df;
          f1 = (if region_selected spec \<noteq> ''All regions''
                then filter (\<lambda>r. eq_cell (region_col r) (region_selected spec)) f0 else f0);
          f2 = (if income_selected spec \<noteq> ''All income levels''
                then filter (\<lambda>r. eq_cell (Wb_income r) (income_selected spec)) f1 else f1);
          f3 = (if countries_selected spec \<noteq> []
                then filter (\<lambda>r. isin (Country r) (countries_selected spec)) f2 else f2);
          f4 = (if agegroups_selected spec \<noteq> []
                then filter (\<lambda>r. isin (Agegroup_pretty r) (agegroups_selected spec)) f3 else f3)
      in filter (\<lambda>r. fst (year_range spec) \<le> Year r \<and> Year r \<le> snd (year_range spec)) f4)"

definition filtered :: "filter_spec \<Rightarrow> row list \<Rightarrow> row list" where
  "filtered = apply_filters Who_region_pretty"

definition filtered_covid :: "filter_spec \<Rightarrow> row list \<Rightarrow> row list" where
  "filtered_covid = apply_filters Who_region"

text \<open>
  The same steps on the level of pandas' indexing. Each step computes a column of
  truth values from the current frame and indexes the frame with it;
  \<^verbatim>\<open>frame[mask]\<close> raises when the mask does not fit the frame, and an exception
  ends the filter.
\<close>

definition getitem :: "row list \<Rightarrow> bool list \<Rightarrow> error + row list" where
  "getitem frame keep =
     (if length keep = length frame then Inr (map fst (filter snd (zip frame keep)))
      else Inl IndexingError)"

definition masked :: "bool \<Rightarrow> (row \<Rightarrow> bool) \<Rightarrow> row list \<Rightarrow> error + row list" where
  "masked active test frame = (if active then getitem frame (map test frame) else Inr frame)"

definition and_then :: "error + 'a \<Rightarrow> ('a \<Rightarrow> error + 'b) \<Rightarrow> error + 'b" where
  "and_then x f = (case x of Inl e \<Rightarrow> Inl e | Inr v \<Rightarrow> f v)"

definition filter_frame ::
  "(row \<Rightarrow> string option) \<Rightarrow> filter_spec \<Rightarrow> row list \<Rightarrow> error + row list" where
  "filter_frame region_col spec df =
     and_then (masked (region_selected spec \<noteq> ''All regions'')
                 (\<lambda>r. eq_cell (region_col r) (region_selected spec)) df) (\<lambda>f1.
     and_then (masked (income_selected spec \<noteq> ''All income levels'')
                 (\<lambda>r. eq_cell (Wb_income r) (income_selected spec)) f1) (\<lambda>f2.
     and_then (masked (countries_selected spec \<noteq> [])
                 (\<lambda>r. isin (Country r) (countries_selected spec)) f2) (\<lambda>f3.
     and_then (masked (agegroups_selected spec \<noteq> [])
                 (\<lambda>r. isin (Agegroup_pretty r) (agegroups_selected spec)) f3) (\<lambda>f4.
     masked True (\<lambda>r. fst (year_range spec) \<le> Year r \<and> Year r \<le> snd (year_range spec)) f4))))"

section \<open>Aggregation\<close>

subsection \<open>KPI metrics\<close>

definition total_deaths :: "row list \<Rightarrow> int64" where
  "total_deaths fv = sum_list (map Deaths fv)"

text \<open>
  \<^verbatim>\<open>filtered["Date"].max()\<close> skips NaT and is NaT when no row has a date;
  NaT minus an offset is NaT, and a comparison with NaT on either side is false.
  The shifted timestamp is a plain month number: it is not checked against the range
  of a nanosecond timestamp.
\<close>

definition max_date :: "row list \<Rightarrow> timestamp option" where
  "max_date fv =
     (case List.map_filter Date fv of [] \<Rightarrow> None | d # ds \<Rightarrow> Some (fold max ds d))"

definition minus_months :: "timestamp option \<Rightarrow> int \<Rightarrow> timestamp option" where
  "minus_months t n = (case t of None \<Rightarrow> None | Some d \<Rightarrow> Some (d - n))"

definition last_12_months_start :: "row list \<Rightarrow> timestamp option" where
  "last_12_months_start fv = minus_months (max_date fv) 12"

definition ge_cell :: "timestamp option \<Rightarrow> timestamp option \<Rightarrow> bool" where
  "ge_cell a b =
     (case a of None \<Rightarrow> False
      | Some x \<Rightarrow> (case b of None \<Rightarrow> False | Some y \<Rightarrow> y \<le> x))"

definition recent :: "row list \<Rightarrow> row list" where
  "recent fv = filter (\<lambda>r. ge_cell (Date r) (last_12_months_start fv)) fv"

definition recent_deaths :: "row list \<Rightarrow> int64" where
  "recent_deaths fv = sum_list (map Deaths (recent fv))"

subsection \<open>Grouped sums\<close>

text \<open>
  \<^verbatim>\<open>frame.groupby(keys)["Deaths"].sum()\<close> with pandas' defaults
  (\<^verbatim>\<open>sort=True\<close>, \<^verbatim>\<open>dropna=True\<close>): one group for each distinct key among the
  rows whose key columns are all set, a row with a blank key column is in no group, and
  the groups come in ascending key order. \<open>key r = None\<close> says that a key column of
  \<open>r\<close> is blank.
\<close>

definition groupby_sum ::
  "('r \<Rightarrow> 'k::linorder option) \<Rightarrow> ('r \<Rightarrow> int64) \<Rightarrow> 'r list \<Rightarrow> ('k \<times> int64) list" where
  "groupby_sum key val rows =
     map (\<lambda>k. (k, sum_list (map val (filter (\<lambda>r. key r = Some k) rows))))
       (sort (remdups (List.map_filter key rows)))"

definition key2 :: "'a option \<Rightarrow> 'b option \<Rightarrow> ('a \<times> 'b) option" where
  "key2 a b =
     (case a of None \<Rightarrow> None
      | Some x \<Rightarrow> (case b of None \<Rightarrow> None | Some y \<Rightarrow> Some (x, y)))"

subsection \<open>Sorting\<close>

text \<open>
  \<^verbatim>\<open>sort_values\<close> orders the rows by their sort key, ascending or descending. The
  order among rows of equal keys is the choice of the sorting algorithm, which is not
  a stable one and sees the column of keys only. The choice is the parameter \<open>ties\<close>:
  it numbers the positions of the column, and among rows of equal keys the row of the
  smaller number comes first (rows of equal numbers keep their order). Every order of
  the rows that is sorted by the key is the result for some \<open>ties\<close>.
\<close>

type_synonym tie_order = "bool \<Rightarrow> int list \<Rightarrow> nat \<Rightarrow> nat"

definition sort_values :: "tie_order \<Rightarrow> bool \<Rightarrow> ('a \<Rightarrow> int) \<Rightarrow> 'a list \<Rightarrow> 'a list" where
  "sort_values ties ascending key xs =
     map snd
       (sort_key (\<lambda>(i, x). (if ascending then key x else - key x, ties ascending (map key xs) i))
          (enumerate 0 xs))"

definition age_summary :: "tie_order \<Rightarrow> row list \<Rightarrow> (string \<times> int64) list" where
  "age_summary ties fv =
     sort_values ties False (\<lambda>(a, d). sint d) (groupby_sum Agegroup_pretty Deaths fv)"

text \<open>\<^verbatim>\<open>age_summary.index[0]\<close> and \<^verbatim>\<open>age_summary.iloc[0]\<close> raise on an empty series.\<close>

definition top_agegroup :: "tie_order \<Rightarrow> row list \<Rightarrow> error + (string \<times> int64)" where
  "top_agegroup ties fv =
     (case age_summary ties fv of [] \<Rightarrow> Inl IndexError | p # _ \<Rightarrow> Inr p)"

subsection \<open>The tables of the four charts\<close>

definition ts :: "tie_order \<Rightarrow> row list \<Rightarrow> ((timestamp \<times> string) \<times> int64) list" where
  "ts ties fv =
     sort_values ties True (\<lambda>((d, a), v). d)
       (groupby_sum (\<lambda>r. key2 (Date r) (Agegroup_pretty r)) Deaths fv)"

definition heat :: "row list \<Rightarrow> ((int \<times> string) \<times> int64) list" where
  "heat fv = groupby_sum (\<lambda>r. key2 (Some (Year r)) (Agegroup_pretty r)) Deaths fv"

text \<open>
  With \<^verbatim>\<open>as_index=False\<close> the group key is a column of the result, so that
  \<^verbatim>\<open>dropna(subset=["Country"])\<close> and the comparison with \<^verbatim>\<open>"Unknown"\<close> read its
  cells; \<^verbatim>\<open>col != s\<close> is true on a blank cell.
\<close>

definition key_column :: "('k \<times> int64) list \<Rightarrow> ('k option \<times> int64) list" where
  "key_column g = map (\<lambda>(k, v). (Some k, v)) g"

definition map_data :: "row list \<Rightarrow> (string option \<times> int64) list" where
  "map_data fv =
     (let m0 = key_column (groupby_sum Country Deaths fv);
          m1 = filter (\<lambda>(c, v). c \<noteq> None) m0
      in filter (\<lambda>(c, v). c \<noteq> Some ''Unknown'') m1)"

definition region_deaths :: "tie_order \<Rightarrow> row list \<Rightarrow> (string \<times> int64) list" where
  "region_deaths ties fv =
     sort_values ties False (\<lambda>(g, d). sint d) (groupby_sum Who_region_pretty Deaths fv)"

definition region_deaths_covid :: "tie_order \<Rightarrow> row list \<Rightarrow> (string \<times> int64) list" where
  "region_deaths_covid ties fv =
     sort_values ties False (\<lambda>(g, d). sint d) (groupby_sum Who_region Deaths fv)"

section \<open>The page\<close>

text \<open>
  One run of a script from the sidebar on, as the list of the elements it puts on the
  page. What pandas, Python or Streamlit raises on the way ends the run with that
  error. \<^verbatim>\<open>st.error(...)\<close> followed by \<^verbatim>\<open>st.stop()\<close> ends the run after the
  message. An element holds the table handed to its chart; drawing it is the plotting
  library's part. Headings, captions, the two counters above the map and the optional
  table of the filtered rows are left out.
\<close>

record kpi =
  kpi_total_deaths :: int64
  kpi_recent_deaths :: int64
  kpi_top_agegroup :: string
  kpi_top_age_deaths :: int64

datatype element =
  Error_box string
  | Warning_box string
  | Metrics kpi
  | Line_chart "((timestamp \<times> string) \<times> int64) list"
  | Heatmap "((int \<times> string) \<times> int64) list"
  | Choropleth "(string option \<times> int64) list"
  | Bar_chart "(string \<times> int64) list"

definition no_data_message :: string where
  "no_data_message = ''No data for the current filter selection. Try widening your filters.''"

definition no_country_message :: string where
  "no_country_message = ''No country-level data available for the selected filters.''"

definition kpi_metrics :: "tie_order \<Rightarrow> row list \<Rightarrow> error + kpi" where
  "kpi_metrics ties fv =
     and_then (top_agegroup ties fv) (\<lambda>(a, d).
       Inr \<lparr>kpi_total_deaths = total_deaths fv, kpi_recent_deaths = recent_deaths fv,
            kpi_top_agegroup = a, kpi_top_age_deaths = d\<rparr>)"

text \<open>
  \<^verbatim>\<open>code.py\<close> formats the mode of the time series' sums with \<^verbatim>\<open>:,.0f\<close>; the mode
  is \<^verbatim>\<open>None\<close> exactly when the time series has no row, and formatting \<^verbatim>\<open>None\<close>
  so raises a TypeError. \<^verbatim>\<open>covid.py\<close> has no such statistics, and no map.
\<close>

definition dashboard :: "tie_order \<Rightarrow> filter_spec \<Rightarrow> row list \<Rightarrow> error + element list" where
  "dashboard ties spec df =
     and_then (sidebar Who_region_pretty df) (\<lambda>opts.
     and_then (filter_frame Who_region_pretty spec df) (\<lambda>fv.
       if fv = [] then Inr [Error_box no_data_message]
       else and_then (kpi_metrics ties fv) (\<lambda>k.
              if ts ties fv = [] then Inl TypeError
              else Inr [Metrics k, Line_chart (ts ties fv), Heatmap (heat fv),
                        if map_data fv = [] then Warning_box no_country_message
                        else Choropleth (map_data fv),
                        Bar_chart (region_deaths ties fv)])))"

definition dashboard_covid :: "tie_order \<Rightarrow> filter_spec \<Rightarrow> row list \<Rightarrow> error + element list" where
  "dashboard_covid ties spec df =
     and_then (sidebar Who_region df) (\<lambda>opts.
     and_then (filter_frame Who_region spec df) (\<lambda>fv.
       if fv = [] then Inr [Error_box no_data_message]
       else and_then (kpi_metrics ties fv) (\<lambda>k.
              Inr [Metrics k, Line_chart (ts ties fv), Heatmap (heat fv),
                   Bar_chart (region_deaths_covid ties fv)])))"

section \<open>The specification's notions\<close>

text \<open>
  The conjunction of the active predicates, as the specification lists them. In
  \<open>passes\<close> every multiselect is inactive when its selection is empty; in
  \<open>passes_as_specified\<close> the age-group membership test is always active, which is how
  the specification words it.
\<close>

definition region_ok :: "(row \<Rightarrow> string option) \<Rightarrow> filter_spec \<Rightarrow> row \<Rightarrow> bool" where
  "region_ok region_col spec r =
     (region_selected spec = ''All regions'' \<or> region_col r = Some (region_selected spec))"

definition income_ok :: "filter_spec \<Rightarrow> row \<Rightarrow> bool" where
  "income_ok spec r =
     (income_selected spec = ''All income levels'' \<or> Wb_income r = Some (income_selected spec))"

definition countries_ok :: "filter_spec \<Rightarrow> row \<Rightarrow> bool" where
  "countries_ok spec r = (countries_selected spec = [] \<or> isin (Country r) (countries_selected spec))"

definition years_ok :: "filter_spec \<Rightarrow> row \<Rightarrow> bool" where
  "years_ok spec r = (fst (year_range spec) \<le> Year r \<and> Year r \<le> snd (year_range spec))"

definition other_predicates :: "(row \<Rightarrow> string option) \<Rightarrow> filter_spec \<Rightarrow> row \<Rightarrow> bool" where
  "other_predicates region_col spec r =
     (region_ok region_col spec r \<and> income_ok spec r \<and> countries_ok spec r \<and> years_ok spec r)"

definition passes :: "(row \<Rightarrow> string option) \<Rightarrow> filter_spec \<Rightarrow> row \<Rightarrow> bool" where
  "passes region_col spec r =
     (region_ok region_col spec r \<and> income_ok spec r \<and> countries_ok spec r \<and>
      (agegroups_selected spec = [] \<or> isin (Agegroup_pretty r) (agegroups_selected spec)) \<and>
      years_ok spec r)"

definition passes_as_specified :: "(row \<Rightarrow> string option) \<Rightarrow> filter_spec \<Rightarrow> row \<Rightarrow> bool" where
  "passes_as_specified region_col spec r =
     (region_ok region_col spec r \<and> income_ok spec r \<and> countries_ok spec r \<and>
      isin (Agegroup_pretty r) (agegroups_selected spec) \<and> years_ok spec r)"

text \<open>
  A selection is maximally unrestricted when every widget is at its sentinel: all
  regions, all income levels, no country, all age-group labels the sidebar offers, and
  the full year range of the slider.
\<close>

definition unrestricted :: "options \<Rightarrow> filter_spec \<Rightarrow> bool" where
  "unrestricted opts spec =
     (region_selected spec = ''All regions'' \<and> income_selected spec = ''All income levels'' \<and>
      countries_selected spec = [] \<and>
      set (agegroups_selected spec) = set (agegroups_all opts) \<and>
      year_range spec = (year_min opts, year_max opts))"

text \<open>
  Whether the sidebar of a frame comes up and offers a selection, and whether the
  selection is then unrestricted.
\<close>

definition offered_on :: "(row \<Rightarrow> string option) \<Rightarrow> row list \<Rightarrow> filter_spec \<Rightarrow> bool" where
  "offered_on region_col df spec =
     (case sidebar region_col df of Inl e \<Rightarrow> False | Inr opts \<Rightarrow> offered opts spec)"


text \<open>
  The dates present in a view, the sum of the deaths of the rows that satisfy a
  condition, and the sum of the deaths as unbounded integers.
\<close>

definition dates_present :: "row list \<Rightarrow> timestamp set" where
  "dates_present fv = {d. Some d \<in> Date ` set fv}"

definition deaths_where :: "(row \<Rightarrow> bool) \<Rightarrow> row list \<Rightarrow> int64" where
  "deaths_where P fv = sum_list (map Deaths (filter P fv))"


section \<open>Small datasets\<close>

text \<open>
  For the open cases of the date column the examples take NaT (no example reaches
  them), and for the order among equal sort keys the order of the rows.
\<close>

definition NaT_elsewhere :: "int \<times> int \<Rightarrow> timestamp option" where
  "NaT_elsewhere p = None"

definition keep_order :: tie_order where
  "keep_order ascending keys i = 0"

text \<open>
  The three rows of the specification's example, a row with the month 13, a row
  without country and region, and a row of the country \<^verbatim>\<open>Unknown\<close> with a region
  code that is not in the table.
\<close>

definition month13_csv :: csv_row where
  "month13_csv =
     \<lparr>csv_Country = Some ''BR'', csv_Who_region = Some ''AMR'', csv_Wb_income = Some ''Upper middle'',
      csv_Year = 2022, csv_Month = 13, csv_Agegroup = Some ''15_64'', csv_Deaths = Some 7\<rparr>"

definition example_csv :: "csv_row list" where
  "example_csv =
     [\<lparr>csv_Country = Some ''US'', csv_Who_region = Some ''AMR'', csv_Wb_income = Some ''High'',
       csv_Year = 2021, csv_Month = 1, csv_Agegroup = Some ''65+'', csv_Deaths = Some 100\<rparr>,
      \<lparr>csv_Country = Some ''US'', csv_Who_region = Some ''AMR'', csv_Wb_income = Some ''High'',
       csv_Year = 2021, csv_Month = 2, csv_Agegroup = Some ''65+'', csv_Deaths = Some 50\<rparr>,
      \<lparr>csv_Country = Some ''FR'', csv_Who_region = Some ''EUR'', csv_Wb_income = Some ''High'',
       csv_Year = 2021, csv_Month = 1, csv_Agegroup = Some ''65+'', csv_Deaths = Some 0\<rparr>,
      month13_csv,
      \<lparr>csv_Country = None, csv_Who_region = None, csv_Wb_income = None,
       csv_Year = 2022, csv_Month = 3, csv_Agegroup = Some ''0_4'', csv_Deaths = Some 4\<rparr>,
      \<lparr>csv_Country = Some ''Unknown'', csv_Who_region = Some ''OTHER'', csv_Wb_income = None,
       csv_Year = 2022, csv_Month = 5, csv_Agegroup = Some ''65+'', csv_Deaths = Some 9\<rparr>]"

definition example_df :: "row list" where
  "example_df = load_data NaT_elsewhere example_csv"

definition all_selected :: filter_spec where
  "all_selected =
     \<lparr>region_selected = ''All regions'', income_selected = ''All income levels'',
      countries_selected = [],
      agegroups_selected = [''0'' @ en_dash @ ''4'', ''15'' @ en_dash @ ''64'', ''65+''],
      year_range = (2021, 2022)\<rparr>"

definition no_agegroups :: filter_spec where
  "no_agegroups = all_selected\<lparr>agegroups_selected := []\<rparr>"

definition americas_only :: filter_spec where
  "americas_only = all_selected\<lparr>region_selected := ''Region of the Americas''\<rparr>"


definition us_upper_middle :: filter_spec where
  "us_upper_middle = all_selected\<lparr>income_selected := ''Upper middle'', countries_selected := [''US'']\<rparr>"









section \<open>Lemmas about filters, sums and groups\<close>

lemma set_map_filter_key: "set (List.map_filter key rows) = {k. Some k \<in> key ` set rows}"
  by (induction rows) (auto simp: List.map_filter_simps image_iff split: option.splits)



lemma apply_filters_passes: "apply_filters rc spec df = filter (passes rc spec) df"
  unfolding apply_filters_def passes_def region_ok_def income_ok_def countries_ok_def years_ok_def
    eq_cell_def Let_def
  by (auto intro!: filter_cong)

lemma passes_no_agegroups:
  "agegroups_selected spec = [] \<Longrightarrow> passes rc spec = other_predicates rc spec"
  by (auto simp: passes_def other_predicates_def fun_eq_iff)




lemma map_snd_enumerate: "map snd (enumerate n xs) = xs"
  by (simp add: enumerate_eq_zip)


lemma set_sort_values: "set (sort_values ties asc key xs) = set xs"
proof -
  have "set (sort_values ties asc key xs) = snd ` set (enumerate 0 xs)"
    by (simp add: sort_values_def)
  also have "\<dots> = set (map snd (enumerate 0 xs))"
    by (simp only: set_map)
  also have "\<dots> = set xs"
    by (simp only: map_snd_enumerate)
  finally show ?thesis .
qed

lemma sort_values_Nil_iff: "sort_values ties asc key xs = [] \<longleftrightarrow> xs = []"
  using set_sort_values [of ties asc key xs] by (metis set_empty)






lemma max_date_Max:
  "max_date fv = (if dates_present fv = {} then None else Some (Max (dates_present fv)))"
proof (cases "List.map_filter Date fv")
  case Nil
  then have "set (List.map_filter Date fv) = {}" by simp
  then have "dates_present fv = {}" by (simp add: set_map_filter_key dates_present_def)
  with Nil show ?thesis by (simp add: max_date_def)
next
  case (Cons d ds)
  have "set (List.map_filter Date fv) = dates_present fv"
    by (simp only: set_map_filter_key dates_present_def)
  with Cons have "set (d # ds) = dates_present fv" by simp
  moreover have "fold max ds d = Max (set (d # ds))" by (rule Max.set_eq_fold [symmetric])
  ultimately show ?thesis using Cons by (auto simp: max_date_def)
qed

section \<open>Lemmas about 64-bit sums and the indexing steps\<close>






lemma getitem_map: "getitem frame (map test frame) = Inr (filter test frame)"
proof -
  have "map fst (filter snd (zip frame (map test frame))) = filter test frame"
    by (induction frame) simp_all
  then show ?thesis by (simp add: getitem_def)
qed

lemma masked_eq: "masked active test frame = Inr (if active then filter test frame else frame)"
  by (simp add: masked_def getitem_map)

lemma filter_frame_apply_filters: "filter_frame rc spec df = Inr (apply_filters rc spec df)"
  by (simp add: filter_frame_def masked_eq and_then_def apply_filters_def Let_def)

section \<open>Lemmas about the sidebar and the loaded frame\<close>

lemma fold_min_le: "x \<in> set (y # ys) \<Longrightarrow> fold min ys y \<le> (x :: int)"
proof -
  assume "x \<in> set (y # ys)"
  then have "Min (set (y # ys)) \<le> x" by (intro Min_le) simp_all
  then show ?thesis by (simp only: Min.set_eq_fold)
qed

lemma le_fold_max: "x \<in> set (y # ys) \<Longrightarrow> (x :: int) \<le> fold max ys y"
proof -
  assume "x \<in> set (y # ys)"
  then have "x \<le> Max (set (y # ys))" by (intro Max_ge) simp_all
  then show ?thesis by (simp only: Max.set_eq_fold)
qed


lemma sidebar_Inr:
  assumes "sidebar rc df = Inr opts"
  shows "agegroups_all opts = sorted_unique (map Agegroup_pretty df)"
    and "\<And>r. r \<in> set df \<Longrightarrow> year_min opts \<le> Year r \<and> Year r \<le> year_max opts"
    and "None \<in> set (map Agegroup_pretty df) \<Longrightarrow> agegroups_all opts = []"
    and "year_min opts < year_max opts"
proof -
  from assms obtain y ys where ys: "map Year df = y # ys"
    by (cases "map Year df") (simp_all add: sidebar_def split: if_splits)
  from assms ys have ne: "fold min ys y \<noteq> fold max ys y"
    by (simp add: sidebar_def split: if_splits)
  from assms ys ne have o: "agegroups_all opts = sorted_unique (map Agegroup_pretty df)"
    "year_min opts = fold min ys y" "year_max opts = fold max ys y"
    by (auto simp: sidebar_def split: if_splits)
  show "agegroups_all opts = sorted_unique (map Agegroup_pretty df)" by (rule o(1))
  show "year_min opts \<le> Year r \<and> Year r \<le> year_max opts" if "r \<in> set df" for r
  proof -
    from that have "Year r \<in> set (map Year df)" by simp
    then have "Year r \<in> set (y # ys)" by (simp only: ys)
    then show ?thesis using fold_min_le [of "Year r" y ys] le_fold_max [of "Year r" y ys]
      by (simp only: o)
  qed
  show "agegroups_all opts = []" if "None \<in> set (map Agegroup_pretty df)"
  proof -
    from assms that have "List.map_filter id (map Agegroup_pretty df) = []"
      by (simp add: sidebar_def split: if_splits)
    then show ?thesis by (simp add: o(1) sorted_unique_def)
  qed
  have "fold min ys y \<le> fold max ys y"
    using fold_min_le [of y y ys] le_fold_max [of y y ys] by simp
  with ne show "year_min opts < year_max opts" by (simp add: o)
qed

lemma default_selection_offered:
  assumes "sidebar rc df = Inr opts"
  shows "offered opts (default_selection opts) \<and> unrestricted opts (default_selection opts)"
proof -
  from assms have "regions opts = ''All regions'' # sorted_unique (map rc df)"
    "income_levels opts = ''All income levels'' # sorted_unique (map Wb_income df)"
    by (auto simp: sidebar_def split: if_splits list.splits)
  with sidebar_Inr(4) [OF assms] show ?thesis
    by (simp add: offered_def unrestricted_def default_selection_def list_all_iff)
qed








section \<open>The view of a selection\<close>

text \<open>
  Claim C1 says that an empty selection of age groups gives an empty view. Both scripts
  guard the age-group step with \<^verbatim>\<open>if agegroups_selected:\<close>, so on the example
  dataset the empty selection leaves every row in the view.
\<close>

theorem empty_agegroups_view_not_empty:
  "agegroups_selected no_agegroups = [] \<and>
   filtered no_agegroups example_df \<noteq> [] \<and> filtered_covid no_agegroups example_df \<noteq> []"
  by code_simp

text \<open>
  Claim C1, as the scripts have it: when no age group is selected the age-group step is
  skipped, and the view consists of exactly the rows that pass the region, income,
  country and year predicates, in both scripts.
\<close>

theorem empty_agegroups_skips_age_filter:
  "agegroups_selected spec = [] \<Longrightarrow>
   filtered spec df = filter (other_predicates Who_region_pretty spec) df \<and>
   filtered_covid spec df = filter (other_predicates Who_region spec) df"
  by (simp add: filtered_def filtered_covid_def apply_filters_passes passes_no_agegroups)

text \<open>
  On the example dataset the selection without age groups keeps all six rows.
\<close>

theorem empty_agegroups_skips_age_filter_witness:
  "agegroups_selected no_agegroups = [] \<and>
   filtered no_agegroups example_df = example_df \<and>
   filtered_covid no_agegroups example_df = example_df"
proof -
  have h: "agegroups_selected no_agegroups = []"
    by (simp add: no_agegroups_def)
  have a: "filter (other_predicates Who_region_pretty no_agegroups) example_df = example_df"
    by code_simp
  have b: "filter (other_predicates Who_region no_agegroups) example_df = example_df"
    by code_simp
  from empty_agegroups_skips_age_filter [OF h, of example_df] a b h show ?thesis
    by simp
qed

text \<open>
  Claim C5 lists the age-group membership test as always active. With the empty
  selection of age groups no row passes the conjunction so worded, while the scripts
  keep the rows.
\<close>

theorem age_membership_not_unconditional:
  "filtered no_agegroups example_df \<noteq>
     filter (passes_as_specified Who_region_pretty no_agegroups) example_df \<and>
   filtered_covid no_agegroups example_df \<noteq>
     filter (passes_as_specified Who_region no_agegroups) example_df"
  by code_simp

text \<open>
  Claim C5, with the age-group test inactive on an empty selection like the country
  test: the view of either script is the input filtered by the conjunction of the
  active predicates, that is, exactly the rows that pass, in input order.
\<close>

theorem filtered_exact:
  "filtered spec df = filter (passes Who_region_pretty spec) df \<and>
   filtered_covid spec df = filter (passes Who_region spec) df"
  by (simp add: filtered_def filtered_covid_def apply_filters_passes)

text \<open>
  With the Americas selected, \<^verbatim>\<open>code.py\<close> keeps the three rows of that region in
  their order; \<^verbatim>\<open>covid.py\<close> compares the label with the raw region code and keeps none.
\<close>

theorem filtered_exact_witness:
  "filtered americas_only example_df = filter (passes Who_region_pretty americas_only) example_df \<and>
   map Country (filtered americas_only example_df) = [Some ''US'', Some ''US'', Some ''BR''] \<and>
   filtered_covid americas_only example_df = filter (passes Who_region americas_only) example_df \<and>
   filtered_covid americas_only example_df = []"
proof -
  have a: "map Country (filter (passes Who_region_pretty americas_only) example_df) =
           [Some ''US'', Some ''US'', Some ''BR'']"
    by code_simp
  have b: "filter (passes Who_region americas_only) example_df = []"
    by code_simp
  from filtered_exact [of americas_only example_df] a b show ?thesis
    by simp
qed

section \<open>Sums of the grouped tables\<close>













lemma map_data_keys: "(c, v) \<in> set (map_data fv) \<Longrightarrow> c \<noteq> None \<and> c \<noteq> Some ''Unknown''"
  by (auto simp: map_data_def Let_def)

text \<open>
  Claim C6: for every selection and every dataset, the country totals of either script
  have no row with a missing country and no row of the country \<^verbatim>\<open>Unknown\<close>.
\<close>

theorem map_data_no_unknown:
  "(None, v) \<notin> set (map_data (filtered spec df)) \<and>
   (Some ''Unknown'', v) \<notin> set (map_data (filtered spec df)) \<and>
   (None, v) \<notin> set (map_data (filtered_covid spec df)) \<and>
   (Some ''Unknown'', v) \<notin> set (map_data (filtered_covid spec df))"
  using map_data_keys by blast

text \<open>
  The view of the example dataset has a row without country and a row of the country
  \<^verbatim>\<open>Unknown\<close>; the country totals have neither.
\<close>

theorem map_data_no_unknown_witness:
  "(Some ''Unknown'', 9) \<notin> set (map_data (filtered all_selected example_df)) \<and>
   (None, 4) \<notin> set (map_data (filtered all_selected example_df)) \<and>
   map Country (filtered all_selected example_df) =
     [Some ''US'', Some ''US'', Some ''FR'', Some ''BR'', None, Some ''Unknown''] \<and>
   map_data (filtered all_selected example_df) = [(Some ''BR'', 7), (Some ''FR'', 0), (Some ''US'', 150)]"
proof -
  have a: "map Country (filtered all_selected example_df) =
     [Some ''US'', Some ''US'', Some ''FR'', Some ''BR'', None, Some ''Unknown'']"
    by code_simp
  have b: "map_data (filtered all_selected example_df) = [(Some ''BR'', 7), (Some ''FR'', 0), (Some ''US'', 150)]"
    by code_simp
  from map_data_no_unknown [of 9 all_selected example_df] map_data_no_unknown [of 4 all_selected example_df] a b
  show ?thesis by blast
qed

section \<open>The window of the last twelve months\<close>

text \<open>
  Claim C7: for a non-empty view, \<open>recent_deaths\<close> is the sum of the deaths of exactly
  the rows of the view whose date is set and is not before the latest date present in
  that view minus twelve months. The window is a function of the view alone.
\<close>

theorem recent_deaths_window:
  "fv \<noteq> [] \<Longrightarrow>
   recent_deaths fv =
     deaths_where
       (\<lambda>r. case Date r of None \<Rightarrow> False | Some d \<Rightarrow> Max (dates_present fv) - 12 \<le> d) fv"
proof -
  have "filter (\<lambda>r. ge_cell (Date r) (last_12_months_start fv)) fv =
        filter (\<lambda>r. case Date r of None \<Rightarrow> False | Some d \<Rightarrow> Max (dates_present fv) - 12 \<le> d) fv"
  proof (rule filter_cong)
    fix r assume r: "r \<in> set fv"
    show "ge_cell (Date r) (last_12_months_start fv) =
          (case Date r of None \<Rightarrow> False | Some d \<Rightarrow> Max (dates_present fv) - 12 \<le> d)"
    proof (cases "Date r")
      case None
      then show ?thesis by (simp add: ge_cell_def)
    next
      case (Some d)
      with r have "d \<in> dates_present fv"
        by (auto simp: dates_present_def image_iff intro: rev_bexI)
      then have "dates_present fv \<noteq> {}" by auto
      then have "last_12_months_start fv = Some (Max (dates_present fv) - 12)"
        by (simp add: last_12_months_start_def max_date_Max minus_months_def)
      with Some show ?thesis by (simp add: ge_cell_def)
    qed
  qed simp
  then show ?thesis
    by (simp add: recent_deaths_def recent_def deaths_where_def)
qed

text \<open>
  On the example dataset the latest date is May 2022 and the window holds 13 deaths;
  in the view of the Americas the latest date is February 2021 and the window holds
  150 deaths: the window moves with the filter.
\<close>

theorem recent_deaths_window_witness:
  "example_df \<noteq> [] \<and> Max (dates_present example_df) = 24268 \<and>
   recent_deaths example_df =
     deaths_where (\<lambda>r. case Date r of None \<Rightarrow> False | Some d \<Rightarrow> 24268 - 12 \<le> d) example_df \<and>
   recent_deaths example_df = 13 \<and>
   filtered americas_only example_df \<noteq> [] \<and>
   Max (dates_present (filtered americas_only example_df)) = 24253 \<and>
   recent_deaths (filtered americas_only example_df) = 150"
proof -
  have h1: "example_df \<noteq> []" by code_simp
  have h2: "filtered americas_only example_df \<noteq> []" by code_simp
  have "Max (set (List.map_filter Date example_df)) = 24268" by code_simp
  then have m1: "Max (dates_present example_df) = 24268"
    by (simp only: set_map_filter_key dates_present_def)
  have "Max (set (List.map_filter Date (filtered americas_only example_df))) = 24253" by code_simp
  then have m2: "Max (dates_present (filtered americas_only example_df)) = 24253"
    by (simp only: set_map_filter_key dates_present_def)
  have v: "recent_deaths example_df = 13" "recent_deaths (filtered americas_only example_df) = 150"
    by code_simp+
  note w = recent_deaths_window [OF h1, unfolded m1]
  from w h1 h2 m1 m2 v show ?thesis by simp
qed

section \<open>Sums that wrap around\<close>








section \<open>The view against the dataset\<close>






section \<open>The empty view\<close>

text \<open>
  The reducers are not defined on an empty view: the top age group is the first entry
  of a table without entries.
\<close>

lemma kpi_metrics_Nil: "kpi_metrics ties [] = Inl IndexError"
  by (simp add: kpi_metrics_def top_agegroup_def age_summary_def groupby_sum_def
      sort_values_def and_then_def List.map_filter_simps)

lemma dashboard_cases:
  assumes "sidebar Who_region_pretty df = Inr opts"
  shows "filtered spec df = [] \<Longrightarrow> dashboard ties spec df = Inr [Error_box no_data_message]"
    and "filtered spec df \<noteq> [] \<Longrightarrow> dashboard ties spec df \<noteq> Inr [Error_box no_data_message]"
  using assms
  by (auto simp: dashboard_def and_then_def filter_frame_apply_filters filtered_def
      split: sum.splits)

lemma dashboard_covid_cases:
  assumes "sidebar Who_region df = Inr opts"
  shows "filtered_covid spec df = [] \<Longrightarrow> dashboard_covid ties spec df = Inr [Error_box no_data_message]"
    and "filtered_covid spec df \<noteq> [] \<Longrightarrow> dashboard_covid ties spec df \<noteq> Inr [Error_box no_data_message]"
  using assms
  by (auto simp: dashboard_covid_def and_then_def filter_frame_apply_filters filtered_covid_def
      split: sum.splits)

text \<open>
  Claim C9: for every selection and every frame the filter returns a view and raises
  nothing, in both scripts (each mask is computed from the frame it indexes, so that
  no indexing step fails); the empty view is one of its values. When the sidebar has
  come up, a run ends with the guidance message alone, with no metric and no chart on
  the page, exactly when the view is empty; the KPI metrics, which raise on an empty
  view, are not computed then.
\<close>

theorem filter_never_fails_and_empty_view_stops:
  "filter_frame Who_region_pretty spec df = Inr (filtered spec df) \<and>
   filter_frame Who_region spec df = Inr (filtered_covid spec df) \<and>
   kpi_metrics ties [] = Inl IndexError \<and>
   (sidebar Who_region_pretty df = Inr opts \<longrightarrow>
      (dashboard ties spec df = Inr [Error_box no_data_message] \<longleftrightarrow> filtered spec df = [])) \<and>
   (sidebar Who_region df = Inr opts' \<longrightarrow>
      (dashboard_covid ties spec df = Inr [Error_box no_data_message] \<longleftrightarrow>
       filtered_covid spec df = []))"
  using dashboard_cases [of df opts spec ties] dashboard_covid_cases [of df opts' spec ties]
  by (auto simp: filter_frame_apply_filters filtered_def filtered_covid_def kpi_metrics_Nil)

text \<open>
  On the example dataset the sidebar offers the income level \<^verbatim>\<open>Upper middle\<close>
  together with the country US, which no row has: both scripts return the empty view
  and show the message alone. With everything selected the view has six rows and the
  page of \<^verbatim>\<open>code.py\<close> has five elements.
\<close>

theorem filter_never_fails_and_empty_view_stops_witness:
  "offered_on Who_region_pretty example_df us_upper_middle \<and>
   offered_on Who_region example_df us_upper_middle \<and>
   filter_frame Who_region_pretty us_upper_middle example_df = Inr [] \<and>
   filter_frame Who_region us_upper_middle example_df = Inr [] \<and>
   dashboard keep_order us_upper_middle example_df = Inr [Error_box no_data_message] \<and>
   dashboard_covid keep_order us_upper_middle example_df = Inr [Error_box no_data_message] \<and>
   length (filtered all_selected example_df) = 6 \<and>
   dashboard keep_order all_selected example_df \<noteq> Inr [Error_box no_data_message]"
proof -
  obtain opts where s: "sidebar Who_region_pretty example_df = Inr opts"
    by (cases "sidebar Who_region_pretty example_df") (simp_all add: sum.case_eq_if, code_simp)
  obtain opts' where s': "sidebar Who_region example_df = Inr opts'"
    by (cases "sidebar Who_region example_df") (simp_all add: sum.case_eq_if, code_simp)
  have o: "offered_on Who_region_pretty example_df us_upper_middle"
    "offered_on Who_region example_df us_upper_middle" by code_simp+
  have e: "filtered us_upper_middle example_df = []"
    "filtered_covid us_upper_middle example_df = []" by code_simp+
  have n: "length (filtered all_selected example_df) = 6" by code_simp
  then have n': "filtered all_selected example_df \<noteq> []" by auto
  note w1 = filter_never_fails_and_empty_view_stops
      [of us_upper_middle example_df keep_order opts opts']
  note w2 = filter_never_fails_and_empty_view_stops
      [of all_selected example_df keep_order opts opts']
  from w1 s s' e have a: "filter_frame Who_region_pretty us_upper_middle example_df = Inr []"
    "filter_frame Who_region us_upper_middle example_df = Inr []"
    "dashboard keep_order us_upper_middle example_df = Inr [Error_box no_data_message]"
    "dashboard_covid keep_order us_upper_middle example_df = Inr [Error_box no_data_message]"
    by simp_all
  from w2 s n' have b: "dashboard keep_order all_selected example_df \<noteq> Inr [Error_box no_data_message]"
    by simp
  from o a n b show ?thesis by simp
qed

section \<open>Rows without a date\<close>












end
